theory Spec2Isabelle
  imports Main
begin

section \<open>The job cache of the Farcaster box backend\<close>

text \<open>
  The repository holds two Express servers over the same in-memory job cache
  \<^verbatim>\<open>MINT_CACHE\<close>: \<^verbatim>\<open>src/index.js\<close> (Neynar, Replicate, Pinata and Thirdweb behind it)
  and \<^verbatim>\<open>src/unnamed/part_000\<close>, which calls itself the MVP (placeholder image, Pinata,
  mock mint). Definitions without a suffix embed \<^verbatim>\<open>src/index.js\<close>; the suffix
  \<open>_mvp\<close> marks the embedding of \<^verbatim>\<open>src/unnamed/part_000\<close>. \<^verbatim>\<open>src/ipfs_uploader.js\<close>
  is shared by both.

  Scope of the embedding. A request parameter (\<^verbatim>\<open>fid\<close>, \<^verbatim>\<open>recipientAddress\<close>) is
  absent (\<open>None\<close>) or a string, as it arrives from a query string, a form body or a
  JSON string. A JSON number other than 0 behaves in every handler as the string
  JavaScript prints it as; 0, arrays and objects are not modelled. A string is the
  list of the bytes of its UTF-8 form and is well-formed (no lone surrogate, on
  which \<^verbatim>\<open>encodeURIComponent\<close> would throw).

  \<^verbatim>\<open>MINT_CACHE\<close> is a plain object, \<^verbatim>\<open>{}\<close>, and the handlers read, write and delete
  it with \<^verbatim>\<open>MINT_CACHE[fid]\<close>. A read therefore also finds what the object
  inherits: the members of \<^verbatim>\<open>Object.prototype\<close> and, once a handler has written
  under the name \<^verbatim>\<open>__proto__\<close> (which sets the object's prototype), the properties
  of the entry written there. The subsection on the cache object models this.

  JavaScript runs a handler without interruption up to an \<^verbatim>\<open>await\<close>. A start
  request is therefore two steps: the part up to the response, and the write that
  ends its generation job, applied to the cache as it is by then. A mint request
  is modelled as handled in one piece; the one write it makes after its awaits,
  \<^verbatim>\<open>delete MINT_CACHE[fid]\<close>, is also a step of its own in the transition system
  below.
\<close>

subsection \<open>Data model\<close>

datatype job_status = Processing | Ready | Error

fun status_text :: "job_status \<Rightarrow> string" where
  "status_text Processing = ''processing''"
| "status_text Ready = ''ready''"
| "status_text Error = ''error''"

text \<open>
  A cache entry is a JavaScript object with the property \<^verbatim>\<open>status\<close> and, depending on
  who wrote it, \<^verbatim>\<open>ipfsUri\<close>, \<^verbatim>\<open>metadataUri\<close> and \<^verbatim>\<open>message\<close>. A property the object
  does not have is \<open>None\<close>.
\<close>

record job =
  status :: job_status
  ipfsUri :: "string option"
  metadataUri :: "string option"
  message :: "string option"

type_synonym cache = "string \<rightharpoonup> job"

text \<open>The three object literals the handlers store.\<close>

definition processing_job :: job where
  "processing_job = \<lparr>status = Processing, ipfsUri = None, metadataUri = None, message = None\<rparr>"

definition ready_job :: "string \<Rightarrow> string \<Rightarrow> job" where
  "ready_job image_uri metadata_uri =
     \<lparr>status = Ready, ipfsUri = Some image_uri, metadataUri = Some metadata_uri, message = None\<rparr>"

definition error_job :: "string \<Rightarrow> job" where
  "error_job msg = \<lparr>status = Error, ipfsUri = None, metadataUri = None, message = Some msg\<rparr>"

text \<open>
  JSON values of a response body, and the response: the HTTP status code
  (\<^verbatim>\<open>res.json\<close> alone answers 200) and the body. \<open>Response\<close> has a JSON object as
  body, a map from property names; \<^verbatim>\<open>JSON.stringify\<close> leaves out a property whose
  value is \<^verbatim>\<open>undefined\<close>. \<open>Bare\<close> is the answer of \<^verbatim>\<open>res.json\<close> to a value that is no
  object: a JSON string, or no body at all for a function.
\<close>

datatype jv = S string | B bool

datatype response =
    Response (code: nat) (body: "string \<rightharpoonup> jv")
  | Bare (code: nat) (content: "string option")

definition job_json :: "job \<Rightarrow> (string \<rightharpoonup> jv)" where
  "job_json j =
     [''status'' \<mapsto> S (status_text (status j))]
       (''ipfsUri'' := map_option S (ipfsUri j),
        ''metadataUri'' := map_option S (metadataUri j),
        ''message'' := map_option S (message j))"

text \<open>
  What a handler does besides answering: the background generation job it goes on
  to run after the response (for a cache key), and its calls to the chain.
\<close>

datatype effect =
    BackgroundJob string
  | SdkInit
  | GetContract
  | Erc721Mint string string "string option"

datatype 's outcome = Outcome (reply: response) (after: 's) (effects: "effect list")

text \<open>JavaScript truthiness of a parameter: \<^verbatim>\<open>!fid\<close> holds for undefined and for the empty string.\<close>

fun truthy :: "string option \<Rightarrow> bool" where
  "truthy None = False"
| "truthy (Some s) = (s \<noteq> [])"

text \<open>
  The string of a parameter, which is the property name in \<^verbatim>\<open>MINT_CACHE[fid]\<close> and the
  text in a template literal.
\<close>

fun js_string :: "string option \<Rightarrow> string" where
  "js_string None = ''undefined''"
| "js_string (Some s) = s"

subsection \<open>The cache object\<close>

text \<open>
  A \<open>cache\<close> holds the entries the handlers have written, by name. The entry
  under \<^verbatim>\<open>__proto__\<close> is not an own property: the assignment
  \<^verbatim>\<open>MINT_CACHE["__proto__"] = entry\<close> runs the setter of \<^verbatim>\<open>Object.prototype\<close> and makes
  the entry the prototype of \<^verbatim>\<open>MINT_CACHE\<close>; reading \<^verbatim>\<open>MINT_CACHE["__proto__"]\<close> gives
  it back. Under every other name an assignment creates or replaces an own
  property, so a write is the map update \<open>c(k \<mapsto> j)\<close> for every name.

  What a read \<^verbatim>\<open>MINT_CACHE[k]\<close> can give: \<^verbatim>\<open>undefined\<close>, an entry, a string (a
  property of the entry that is the prototype), a function (a method of
  \<^verbatim>\<open>Object.prototype\<close>), or \<^verbatim>\<open>Object.prototype\<close> itself.
\<close>

datatype js_value = Undefined | Entry job | Text string | Function | ObjectPrototype

text \<open>The own properties of an entry, as the handlers write them.\<close>

definition property_of :: "job \<Rightarrow> string \<Rightarrow> string option" where
  "property_of j k =
     (if k = ''status'' then Some (status_text (status j))
      else if k = ''ipfsUri'' then ipfsUri j
      else if k = ''metadataUri'' then metadataUri j
      else if k = ''message'' then message j
      else None)"

text \<open>
  The members of \<^verbatim>\<open>Object.prototype\<close> in Node: the accessor \<^verbatim>\<open>__proto__\<close>, which gives
  the prototype of the object it is read from, and eleven methods.
\<close>

definition Object_prototype :: "string \<Rightarrow> js_value" where
  "Object_prototype k =
     (if k = ''__proto__'' then ObjectPrototype
      else if k \<in> set [''constructor'', ''__defineGetter__'', ''__defineSetter__'',
                        ''hasOwnProperty'', ''__lookupGetter__'', ''__lookupSetter__'',
                        ''isPrototypeOf'', ''propertyIsEnumerable'', ''toString'', ''valueOf'',
                        ''toLocaleString'']
      then Function
      else Undefined)"

text \<open>
  \<^verbatim>\<open>MINT_CACHE[k]\<close>: the entry written under \<open>k\<close>; else the property \<open>k\<close> of the
  prototype entry, if one was set; else the member \<open>k\<close> of \<^verbatim>\<open>Object.prototype\<close>.
\<close>

definition lookup :: "cache \<Rightarrow> string \<Rightarrow> js_value" where
  "lookup c k =
     (case c k of
        Some j \<Rightarrow> Entry j
      | None \<Rightarrow>
          (case c ''__proto__'' of
             None \<Rightarrow> Object_prototype k
           | Some p \<Rightarrow>
               (case property_of p k of
                  Some s \<Rightarrow> Text s
                | None \<Rightarrow> Object_prototype k)))"

text \<open>
  \<^verbatim>\<open>delete MINT_CACHE[k]\<close> removes an own property; \<^verbatim>\<open>__proto__\<close> is none, so the
  prototype stays.
\<close>

definition delete_property :: "string \<Rightarrow> cache \<Rightarrow> cache" where
  "delete_property k c = (if k = ''__proto__'' then c else c(k := None))"

text \<open>Truthiness of what was read, and its property \<^verbatim>\<open>status\<close>, which only an entry has.\<close>

fun truthy_value :: "js_value \<Rightarrow> bool" where
  "truthy_value Undefined = False"
| "truthy_value (Entry j) = True"
| "truthy_value (Text s) = (s \<noteq> [])"
| "truthy_value Function = True"
| "truthy_value ObjectPrototype = True"

fun status_of :: "js_value \<Rightarrow> job_status option" where
  "status_of (Entry j) = Some (status j)"
| "status_of v = None"

text \<open>
  \<^verbatim>\<open>res.json(value)\<close>: an entry as its JSON object, a string as a JSON string,
  \<^verbatim>\<open>Object.prototype\<close> as \<^verbatim>\<open>{}\<close>; for a function and for \<^verbatim>\<open>undefined\<close>,
  \<^verbatim>\<open>JSON.stringify\<close> gives \<^verbatim>\<open>undefined\<close> and the response has no body.
\<close>

fun res_json :: "js_value \<Rightarrow> response" where
  "res_json (Entry j) = Response 200 (job_json j)"
| "res_json (Text s) = Bare 200 (Some s)"
| "res_json ObjectPrototype = Response 200 Map.empty"
| "res_json Function = Bare 200 None"
| "res_json Undefined = Bare 200 None"

subsection \<open>Calls that may throw\<close>

text \<open>The result of a call that may throw: the error's name and message, or the value.\<close>

datatype 'a attempt = Threw string string | Returned 'a

subsection \<open>The collaborators' answers\<close>

text \<open>
  One generation job sees one \<open>world\<close>: what each external service answers if it is
  asked.
  \<^item> \<open>fetchBulkUsers\<close>: Neynar; \<open>None\<close> when the call throws or answers without a
    user array, else the \<^verbatim>\<open>pfp_url\<close> of each user (\<open>None\<close> when the user has none);
  \<^item> \<open>replicate_run\<close>: Replicate; \<open>None\<close> when the call throws or its output is no
    array, else the output array;
  \<^item> \<open>axios_get\<close>: whether the download of the image succeeds;
  \<^item> \<open>pinFileToIPFS\<close>, \<open>pinJSONToIPFS\<close>: Pinata's \<^verbatim>\<open>IpfsHash\<close>, \<open>None\<close> when the
    request throws.
\<close>

record world =
  fetchBulkUsers :: "string option list option"
  replicate_run :: "string list option"
  axios_get :: bool
  pinFileToIPFS :: "string option"
  pinJSONToIPFS :: "string option"

text \<open>
  What the chain answers to one mint request: whether the Thirdweb SDK can be
  built, \<^verbatim>\<open>sdk.getContract\<close>, and \<^verbatim>\<open>contract.erc721.mint\<close> with the transaction hash
  of its receipt.
\<close>

record chain =
  sdk_init :: bool
  getContract :: "unit attempt"
  erc721_mint :: "string attempt"

subsection \<open>Helpers of \<^verbatim>\<open>src/index.js\<close> and \<^verbatim>\<open>src/ipfs_uploader.js\<close>\<close>

text \<open>\<^verbatim>\<open>getPfpUrl\<close>: \<^verbatim>\<open>users && users[0]\<close>, then \<^verbatim>\<open>user?.pfp_url || null\<close>; \<^verbatim>\<open>null\<close> on any throw.\<close>

definition getPfpUrl :: "world \<Rightarrow> string option" where
  "getPfpUrl w =
     (case fetchBulkUsers w of
        None \<Rightarrow> None
      | Some [] \<Rightarrow> None
      | Some (user # _) \<Rightarrow>
          (case user of
             None \<Rightarrow> None
           | Some pfpUrl \<Rightarrow> if pfpUrl = [] then None else Some pfpUrl))"

text \<open>\<^verbatim>\<open>generateBoxCharacter\<close> of \<^verbatim>\<open>src/index.js\<close>: the first element of a non-empty output array.\<close>

definition generateBoxCharacter :: "world \<Rightarrow> string option" where
  "generateBoxCharacter w =
     (case replicate_run w of
        None \<Rightarrow> None
      | Some [] \<Rightarrow> None
      | Some (out # _) \<Rightarrow> Some out)"

text \<open>
  \<^verbatim>\<open>encodeURIComponent\<close> on a well-formed string, a character being a byte of its
  UTF-8 form: the unreserved characters stay, every other byte becomes \<^verbatim>\<open>%XX\<close>.
\<close>

definition unreserved :: "char \<Rightarrow> bool" where
  "unreserved c \<longleftrightarrow>
     c \<in> set (''ABCDEFGHIJKLMNOPQRSTUVWXYZabcdefghijklmnopqrstuvwxyz0123456789-_.!~*()''
              @ [CHR 0x27])"

definition hex_digit :: "nat \<Rightarrow> char" where
  "hex_digit n = ''0123456789ABCDEF'' ! (n mod 16)"

definition percent :: "char \<Rightarrow> string" where
  "percent c = [CHR ''%'', hex_digit (of_char c div 16), hex_digit (of_char c mod 16)]"

definition encodeURIComponent :: "string \<Rightarrow> string" where
  "encodeURIComponent s = concat (map (\<lambda>c. if unreserved c then [c] else percent c) s)"

text \<open>\<^verbatim>\<open>generateBoxCharacter\<close> of the MVP: a placeholder URL from \<^verbatim>\<open>String(fid || "default")\<close>.\<close>

definition generateBoxCharacter_mvp :: "string option \<Rightarrow> string" where
  "generateBoxCharacter_mvp fid =
     (let seed = (if truthy fid then js_string fid else ''default'')
      in ''https://picsum.photos/seed/'' @ encodeURIComponent seed @ ''/1024/1024'')"

text \<open>
  \<^verbatim>\<open>uploadImageToIpfs\<close>: \<^verbatim>\<open>null\<close> for an empty URL and when the download or the pin
  throws, else \<^verbatim>\<open>ipfs://\<close> followed by the hash.
\<close>

definition uploadImageToIpfs :: "string \<Rightarrow> string option \<Rightarrow> world \<Rightarrow> string option" where
  "uploadImageToIpfs imageUrl fid w =
     (if imageUrl = [] then None
      else if \<not> axios_get w then None
      else (case pinFileToIPFS w of
              None \<Rightarrow> None
            | Some IpfsHash \<Rightarrow> Some (''ipfs://'' @ IpfsHash)))"

text \<open>
  \<^verbatim>\<open>uploadMetadataToIpfs\<close>: pins the metadata document (name, description, image,
  attributes) and answers \<^verbatim>\<open>ipfs://\<close> followed by the hash, \<^verbatim>\<open>null\<close> when the pin throws.
\<close>

definition uploadMetadataToIpfs :: "string option \<Rightarrow> string \<Rightarrow> world \<Rightarrow> string option" where
  "uploadMetadataToIpfs fid ipfsImageUri w =
     (case pinJSONToIPFS w of
        None \<Rightarrow> None
      | Some IpfsHash \<Rightarrow> Some (''ipfs://'' @ IpfsHash))"

subsection \<open>\<^verbatim>\<open>POST /api/start-generation\<close>\<close>

text \<open>
  The synchronous part, up to the response. \<^verbatim>\<open>src/index.js\<close> answers the status
  of whatever it reads under the key unless that is falsy or an error entry
  (\<^verbatim>\<open>MINT_CACHE[fid] && MINT_CACHE[fid].status !== "error"\<close>); otherwise it stores
  \<^verbatim>\<open>{ status: "processing" }\<close>, answers, and goes on to the generation job.
\<close>

definition admit :: "string \<Rightarrow> cache \<Rightarrow> cache outcome" where
  "admit k c =
     Outcome (Response 200 [''status'' \<mapsto> S ''processing'', ''message'' \<mapsto> S ''Generation started.''])
             (c(k \<mapsto> processing_job)) [BackgroundJob k]"

definition post_start_generation :: "string option \<Rightarrow> cache \<Rightarrow> cache outcome" where
  "post_start_generation fid c =
     (if \<not> truthy fid then Outcome (Response 400 [''error'' \<mapsto> S ''Missing FID'']) c []
      else
        let v = lookup c (js_string fid) in
        if truthy_value v \<and> status_of v \<noteq> Some Error
        then Outcome (Response 200
                       (Map.empty(''status'' := map_option (\<lambda>st. S (status_text st)) (status_of v))))
                     c []
        else admit (js_string fid) c)"

text \<open>
  The MVP answers from the cache only for a ready entry
  (\<^verbatim>\<open>MINT_CACHE[fid] && MINT_CACHE[fid].status === "ready"\<close>), with its two URIs.
\<close>

definition post_start_generation_mvp :: "string option \<Rightarrow> cache \<Rightarrow> cache outcome" where
  "post_start_generation_mvp fid c =
     (if \<not> truthy fid then Outcome (Response 400 [''error'' \<mapsto> S ''Missing FID'']) c []
      else (case lookup c (js_string fid) of
              Entry j \<Rightarrow>
                if status j = Ready
                then Outcome (Response 200
                       ([''status'' \<mapsto> S ''ready'']
                          (''ipfsUri'' := map_option S (ipfsUri j),
                           ''metadataUri'' := map_option S (metadataUri j)))) c []
                else admit (js_string fid) c
            | _ \<Rightarrow> admit (js_string fid) c))"

subsection \<open>The generation job\<close>

datatype stage = ResolvePfp | Generate | PinImage | PinMetadata

text \<open>
  The \<^verbatim>\<open>try\<close> block of \<^verbatim>\<open>src/index.js\<close>: the stages that were called, in order, and
  the entry the job stores at its end. A stage whose result is falsy throws, and
  the \<^verbatim>\<open>catch\<close> stores the error's message.
\<close>

definition generation_job :: "string option \<Rightarrow> world \<Rightarrow> stage list \<times> job" where
  "generation_job fid w =
     (case getPfpUrl w of
        None \<Rightarrow> ([ResolvePfp], error_job ''No PFP found.'')
      | Some pfpUrl \<Rightarrow>
          if pfpUrl = [] then ([ResolvePfp], error_job ''No PFP found.'')
          else
          (case generateBoxCharacter w of
             None \<Rightarrow> ([ResolvePfp, Generate], error_job ''AI generation failed.'')
           | Some aiImage \<Rightarrow>
               if aiImage = [] then ([ResolvePfp, Generate], error_job ''AI generation failed.'')
               else (case uploadImageToIpfs aiImage fid w of
                       None \<Rightarrow> ([ResolvePfp, Generate, PinImage], error_job ''IPFS failed.'')
                     | Some ipfs_uri \<Rightarrow>
                         if ipfs_uri = [] then ([ResolvePfp, Generate, PinImage], error_job ''IPFS failed.'')
                         else (case uploadMetadataToIpfs fid ipfs_uri w of
                                 None \<Rightarrow> ([ResolvePfp, Generate, PinImage, PinMetadata],
                                           error_job ''Metadata failed.'')
                               | Some metadata_uri \<Rightarrow>
                                   if metadata_uri = []
                                   then ([ResolvePfp, Generate, PinImage, PinMetadata],
                                         error_job ''Metadata failed.'')
                                   else ([ResolvePfp, Generate, PinImage, PinMetadata],
                                         ready_job ipfs_uri metadata_uri)))))"

text \<open>
  The MVP's \<^verbatim>\<open>try\<close> block: placeholder image, then the two pins. Its \<^verbatim>\<open>catch\<close>
  stores \<^verbatim>\<open>err.message || "Unknown error"\<close>.
\<close>

definition caught_mvp :: "string \<Rightarrow> job" where
  "caught_mvp msg = error_job (if msg = [] then ''Unknown error'' else msg)"

definition generation_job_mvp :: "string option \<Rightarrow> world \<Rightarrow> stage list \<times> job" where
  "generation_job_mvp fid w =
     (let imageUrl = generateBoxCharacter_mvp fid in
      case uploadImageToIpfs imageUrl fid w of
        None \<Rightarrow> ([Generate, PinImage], caught_mvp ''IPFS image upload failed.'')
      | Some ipfsImageUri \<Rightarrow>
          if ipfsImageUri = [] then ([Generate, PinImage], caught_mvp ''IPFS image upload failed.'')
          else (case uploadMetadataToIpfs fid ipfsImageUri w of
                  None \<Rightarrow> ([Generate, PinImage, PinMetadata], caught_mvp ''IPFS metadata upload failed.'')
                | Some metadata_uri \<Rightarrow>
                    if metadata_uri = []
                    then ([Generate, PinImage, PinMetadata], caught_mvp ''IPFS metadata upload failed.'')
                    else ([Generate, PinImage, PinMetadata], ready_job ipfsImageUri metadata_uri)))"

text \<open>
  The job's one write, \<^verbatim>\<open>MINT_CACHE[fid] = ...\<close>, on the cache as it is when the job
  ends. A job exists only for a key that passed the \<^verbatim>\<open>!fid\<close> check.
\<close>

definition generation_done :: "string \<Rightarrow> world \<Rightarrow> cache \<Rightarrow> cache" where
  "generation_done k w c = c(k \<mapsto> snd (generation_job (Some k) w))"

definition generation_done_mvp :: "string \<Rightarrow> world \<Rightarrow> cache \<Rightarrow> cache" where
  "generation_done_mvp k w c = c(k \<mapsto> snd (generation_job_mvp (Some k) w))"

subsection \<open>\<^verbatim>\<open>GET /api/status\<close>\<close>

text \<open>
  The same handler in both files: 404 without a key or when the read is falsy
  (\<^verbatim>\<open>!fid || !MINT_CACHE[fid]\<close>), else \<^verbatim>\<open>res.json\<close> of what was read.
\<close>

definition get_status :: "string option \<Rightarrow> cache \<Rightarrow> cache outcome" where
  "get_status fid c =
     (if \<not> truthy fid then Outcome (Response 404 [''error'' \<mapsto> S ''No active job.'']) c []
      else if \<not> truthy_value (lookup c (js_string fid))
      then Outcome (Response 404 [''error'' \<mapsto> S ''No active job.'']) c []
      else Outcome (res_json (lookup c (js_string fid))) c [])"

subsection \<open>\<^verbatim>\<open>POST /api/mint-nft\<close>\<close>

text \<open>
  The server of \<^verbatim>\<open>src/index.js\<close> also keeps \<^verbatim>\<open>sdkInstance\<close>, the Thirdweb SDK once it
  has been built. Both mint handlers answer 409 unless what they read under the
  key is an entry with status ready (\<^verbatim>\<open>!entry || entry.status !== "ready"\<close>).
\<close>

record server =
  MINT_CACHE :: cache
  sdkInstance :: bool

text \<open>\<^verbatim>\<open>getSDK().catch(() => null)\<close>: the cached SDK, or a new one, or \<^verbatim>\<open>null\<close>.\<close>

definition getSDK :: "chain \<Rightarrow> server \<Rightarrow> bool \<times> server \<times> effect list" where
  "getSDK ch s =
     (if sdkInstance s then (True, s, [])
      else if sdk_init ch then (True, s\<lparr>sdkInstance := True\<rparr>, [SdkInit])
      else (False, s, [SdkInit]))"

definition post_mint_nft :: "string option \<Rightarrow> string option \<Rightarrow> chain \<Rightarrow> server \<Rightarrow> server outcome" where
  "post_mint_nft fid recipientAddress ch s =
     (if \<not> truthy fid \<or> \<not> truthy recipientAddress
      then Outcome (Response 400 [''error'' \<mapsto> S ''Missing parameters.'']) s []
      else
        let k = js_string fid; recipient = js_string recipientAddress in
        (case lookup (MINT_CACHE s) k of
           Entry entry \<Rightarrow>
             if status entry \<noteq> Ready
             then Outcome (Response 409 [''error'' \<mapsto> S ''Not ready to mint.'']) s []
             else
               (case getSDK ch s of
                  (sdk, s1, fx) \<Rightarrow>
                    if \<not> sdk
                    then Outcome (Response 500 [''error'' \<mapsto> S ''Blockchain connection failed.'']) s1 fx
                    else
                      (case getContract ch of
                         Threw _ msg \<Rightarrow>
                           Outcome (Response 500 [''error'' \<mapsto> S ''Mint failed.'', ''details'' \<mapsto> S msg])
                                   s1 (fx @ [GetContract])
                       | Returned _ \<Rightarrow>
                           (case erc721_mint ch of
                              Threw _ msg \<Rightarrow>
                                Outcome (Response 500 [''error'' \<mapsto> S ''Mint failed.'', ''details'' \<mapsto> S msg])
                                        s1 (fx @ [GetContract,
                                                  Erc721Mint recipient (''Box Character #'' @ k) (metadataUri entry)])
                            | Returned transactionHash \<Rightarrow>
                                Outcome (Response 200 [''success'' \<mapsto> B True, ''txHash'' \<mapsto> S transactionHash])
                                        (s1\<lparr>MINT_CACHE := delete_property k (MINT_CACHE s1)\<rparr>)
                                        (fx @ [GetContract,
                                               Erc721Mint recipient (''Box Character #'' @ k) (metadataUri entry)]))))
         | _ \<Rightarrow> Outcome (Response 409 [''error'' \<mapsto> S ''Not ready to mint.'']) s []))"

text \<open>
  The MVP's mock mint: no chain, the transaction hash is \<^verbatim>\<open>"0x"\<close> and 32 random bytes
  in hex. The handler's \<^verbatim>\<open>catch\<close> answers \<^verbatim>\<open>err.message || String(err)\<close>, which for an
  error without message is the error's name.
\<close>

definition not_ready_mvp :: string where
  "not_ready_mvp =
     ''Not ready to mint '' @ [CHR 0xE2, CHR 0x80, CHR 0x93] @ '' kein ''
       @ [CHR 0x27] @ ''ready'' @ [CHR 0x27] @ ''-Status im Cache.''"

definition post_mint_nft_mvp ::
  "string option \<Rightarrow> string option \<Rightarrow> string attempt \<Rightarrow> cache \<Rightarrow> cache outcome" where
  "post_mint_nft_mvp fid recipientAddress randomBytes c =
     (if \<not> truthy fid \<or> \<not> truthy recipientAddress
      then Outcome (Response 400 [''success'' \<mapsto> B False,
                                  ''error'' \<mapsto> S ''Missing parameters (fid oder recipientAddress).'']) c []
      else
        let k = js_string fid in
        (case lookup c k of
           Entry entry \<Rightarrow>
             if status entry \<noteq> Ready
             then Outcome (Response 409 [''success'' \<mapsto> B False, ''error'' \<mapsto> S not_ready_mvp]) c []
             else
               (case randomBytes of
                  Threw name msg \<Rightarrow>
                    Outcome (Response 500 [''success'' \<mapsto> B False, ''error'' \<mapsto> S ''Mock mint failed.'',
                                           ''details'' \<mapsto> S (if msg = [] then name else msg)]) c []
                | Returned hex \<Rightarrow>
                    Outcome (Response 200 [''success'' \<mapsto> B True, ''txHash'' \<mapsto> S (''0x'' @ hex)])
                            (delete_property k c) [])
         | _ \<Rightarrow> Outcome (Response 409 [''success'' \<mapsto> B False, ''error'' \<mapsto> S not_ready_mvp]) c []))"

subsection \<open>The servers as transition systems\<close>

text \<open>
  One step of the server of \<^verbatim>\<open>src/index.js\<close>: the synchronous part of a start
  request, the write that ends a generation job, a status request, a mint request
  handled without another step in between, and \<^verbatim>\<open>delete MINT_CACHE[fid]\<close> alone,
  which is what a mint request still does when other steps ran during its awaits.
\<close>

datatype request =
    StartGeneration "string option"
  | GenerationDone string world
  | GetStatus "string option"
  | MintNft "string option" "string option" chain
  | MintSettled string

fun serve :: "request \<Rightarrow> server \<Rightarrow> server" where
  "serve (StartGeneration fid) s = s\<lparr>MINT_CACHE := after (post_start_generation fid (MINT_CACHE s))\<rparr>"
| "serve (GenerationDone k w) s = s\<lparr>MINT_CACHE := generation_done k w (MINT_CACHE s)\<rparr>"
| "serve (GetStatus fid) s = s\<lparr>MINT_CACHE := after (get_status fid (MINT_CACHE s))\<rparr>"
| "serve (MintNft fid recipientAddress ch) s = after (post_mint_nft fid recipientAddress ch s)"
| "serve (MintSettled k) s = s\<lparr>MINT_CACHE := delete_property k (MINT_CACHE s)\<rparr>"

text \<open>One step of the MVP, whose mint handler has no await.\<close>

datatype request_mvp =
    StartGeneration_mvp "string option"
  | GenerationDone_mvp string world
  | GetStatus_mvp "string option"
  | MintNft_mvp "string option" "string option" "string attempt"

fun serve_mvp :: "request_mvp \<Rightarrow> cache \<Rightarrow> cache" where
  "serve_mvp (StartGeneration_mvp fid) c = after (post_start_generation_mvp fid c)"
| "serve_mvp (GenerationDone_mvp k w) c = generation_done_mvp k w c"
| "serve_mvp (GetStatus_mvp fid) c = after (get_status fid c)"
| "serve_mvp (MintNft_mvp fid recipientAddress randomBytes) c =
     after (post_mint_nft_mvp fid recipientAddress randomBytes c)"

text \<open>
  The invariant of the data model: an entry has its two URIs exactly when it is
  ready, and a message exactly when it is an error entry.
\<close>

definition job_inv :: "job \<Rightarrow> bool" where
  "job_inv j \<longleftrightarrow>
     ((ipfsUri j \<noteq> None) = (status j = Ready)) \<and>
     ((metadataUri j \<noteq> None) = (status j = Ready)) \<and>
     ((message j \<noteq> None) = (status j = Error))"

definition cache_inv :: "cache \<Rightarrow> bool" where
  "cache_inv c \<longleftrightarrow> (\<forall>k j. c k = Some j \<longrightarrow> job_inv j)"


subsection \<open>The scenario of the specification\<close>

text \<open>
  Key \<^verbatim>\<open>42\<close>: the profile image is \<^verbatim>\<open>img://p42\<close>, the generated image
  \<^verbatim>\<open>img://gen42\<close>, the pins have the hashes \<^verbatim>\<open>Qa\<close> and \<^verbatim>\<open>Qb\<close>, and the mint for the
  recipient \<^verbatim>\<open>0xABC\<close> has the transaction hash \<^verbatim>\<open>0xDEAD\<close>.
\<close>

definition world_42 :: world where
  "world_42 = \<lparr>fetchBulkUsers = Some [Some ''img://p42''], replicate_run = Some [''img://gen42''],
                axios_get = True, pinFileToIPFS = Some ''Qa'', pinJSONToIPFS = Some ''Qb''\<rparr>"

definition chain_42 :: chain where
  "chain_42 = \<lparr>sdk_init = True, getContract = Returned (), erc721_mint = Returned ''0xDEAD''\<rparr>"

definition ready_42 :: job where
  "ready_42 = ready_job ''ipfs://Qa'' ''ipfs://Qb''"

definition server_of :: "cache \<Rightarrow> server" where
  "server_of c = \<lparr>MINT_CACHE = c, sdkInstance = False\<rparr>"

section \<open>Properties\<close>

subsection \<open>Auxiliary facts\<close>

lemma getPfpUrl_nonempty: "getPfpUrl w = Some p \<Longrightarrow> p \<noteq> []"
  by (auto simp add: getPfpUrl_def split: option.splits list.splits if_splits)

lemma uploadImageToIpfs_nonempty: "uploadImageToIpfs url fid w = Some u \<Longrightarrow> u \<noteq> []"
  by (auto simp add: uploadImageToIpfs_def split: if_splits option.splits)

lemma uploadMetadataToIpfs_nonempty: "uploadMetadataToIpfs fid u w = Some m \<Longrightarrow> m \<noteq> []"
  by (auto simp add: uploadMetadataToIpfs_def split: option.splits)

text \<open>
  Reading the cache: a name with an entry gives that entry, whatever the name; a
  name without an entry never gives an entry, but it gives \<^verbatim>\<open>undefined\<close> only
  when nothing is inherited under it.
\<close>

lemma lookup_entry: "c k = Some j \<Longrightarrow> lookup c k = Entry j"
  by (simp add: lookup_def)

lemma lookup_no_entry: "c k = None \<Longrightarrow> lookup c k \<noteq> Entry j"
  by (simp add: lookup_def Object_prototype_def split: option.split)

lemma lookup_plain:
  "c k = None \<Longrightarrow> c ''__proto__'' = None \<Longrightarrow> Object_prototype k = Undefined \<Longrightarrow>
     lookup c k = Undefined"
  by (simp add: lookup_def)

lemma lookup_write: "lookup (c(k \<mapsto> j)) k = Entry j"
  by (simp add: lookup_def)

text \<open>
  In \<^verbatim>\<open>src/index.js\<close> no entry arises under a name of \<^verbatim>\<open>Object.prototype\<close>: a start
  request for such a name reads the inherited member, answers \<^verbatim>\<open>{}\<close> and neither
  writes nor starts a job.
\<close>

lemma start_inherited_name:
  assumes "Object_prototype k \<noteq> Undefined" and "c k = None"
  shows "post_start_generation (Some k) c = Outcome (Response 200 Map.empty) c []"
proof -
  have name: "k \<noteq> []" "property_of p k = None" for p
    using assms(1) by (auto simp add: Object_prototype_def property_of_def split: if_splits)
  have "lookup c k = Object_prototype k"
    using assms(2) name(2) by (simp add: lookup_def split: option.split)
  moreover have "Object_prototype k = Function \<or> Object_prototype k = ObjectPrototype"
    using assms(1) by (auto simp add: Object_prototype_def split: if_splits)
  ultimately show ?thesis
    using name(1) by (auto simp add: post_start_generation_def)
qed

lemma getSDK_available:
  "sdkInstance s \<or> sdk_init ch \<Longrightarrow>
     getSDK ch s = (True, s\<lparr>sdkInstance := True\<rparr>, if sdkInstance s then [] else [SdkInit])"
  by (auto simp add: getSDK_def)

text \<open>
  When the SDK cannot be built, the mint handler of \<^verbatim>\<open>src/index.js\<close> answers 500
  without calling the contract and leaves the server as it was.
\<close>

lemma mint_without_sdk:
  assumes "k \<noteq> []" and "r \<noteq> []" and "MINT_CACHE s k = Some j" and "status j = Ready"
    and "\<not> sdkInstance s" and "\<not> sdk_init ch"
  shows "post_mint_nft (Some k) (Some r) ch s
           = Outcome (Response 500 [''error'' \<mapsto> S ''Blockchain connection failed.'']) s [SdkInit]"
  using assms by (simp add: post_mint_nft_def getSDK_def lookup_entry)

text \<open>
  A mint request whose key or recipient is missing or empty is answered 400
  (InvalidInput) before the cache is read.
\<close>

lemma mint_invalid_input:
  assumes "\<not> truthy fid \<or> \<not> truthy recipientAddress"
  shows "post_mint_nft fid recipientAddress ch s
           = Outcome (Response 400 [''error'' \<mapsto> S ''Missing parameters.'']) s []"
    and "post_mint_nft_mvp fid recipientAddress rb c
           = Outcome (Response 400 [''success'' \<mapsto> B False,
                        ''error'' \<mapsto> S ''Missing parameters (fid oder recipientAddress).'']) c []"
  using assms by (auto simp add: post_mint_nft_def post_mint_nft_mvp_def)

text \<open>
  The empty string is never a key of the cache: a generation job runs only for a
  key that passed the \<^verbatim>\<open>!fid\<close> check, and no step stores under another key. The
  properties below are therefore stated for non-empty keys.
\<close>

lemma job_key_nonempty:
  "BackgroundJob k \<in> set (effects (post_start_generation fid c)) \<Longrightarrow> k \<noteq> []"
  "BackgroundJob k \<in> set (effects (post_start_generation_mvp fid c)) \<Longrightarrow> k \<noteq> []"
  by (cases fid; auto simp add: post_start_generation_def post_start_generation_mvp_def admit_def
        Let_def split: js_value.splits if_splits)+

lemma empty_key_never_stored:
  "c [] = None \<Longrightarrow> after (post_start_generation fid c) [] = None"
  "c [] = None \<Longrightarrow> after (post_start_generation_mvp fid c) [] = None"
  "c [] = None \<Longrightarrow> k \<noteq> [] \<Longrightarrow> generation_done k w c [] = None"
  "c [] = None \<Longrightarrow> k \<noteq> [] \<Longrightarrow> generation_done_mvp k w c [] = None"
  "c [] = None \<Longrightarrow> after (get_status fid c) [] = None"
  "MINT_CACHE s [] = None \<Longrightarrow> MINT_CACHE (after (post_mint_nft fid r ch s)) [] = None"
  "c [] = None \<Longrightarrow> after (post_mint_nft_mvp fid r rb c) [] = None"
  by (cases fid; auto simp add: post_start_generation_def post_start_generation_mvp_def admit_def
        generation_done_def generation_done_mvp_def get_status_def post_mint_nft_def
        post_mint_nft_mvp_def getSDK_def Let_def delete_property_def
        split: js_value.splits if_splits attempt.splits)+

lemma job_inv_written:
  "job_inv processing_job" "job_inv (ready_job x y)" "job_inv (error_job z)"
  by (simp_all add: job_inv_def processing_job_def ready_job_def error_job_def)

lemma job_inv_generation_job: "job_inv (snd (generation_job fid w))"
  by (simp add: generation_job_def job_inv_written split: option.split)

lemma job_inv_generation_job_mvp: "job_inv (snd (generation_job_mvp fid w))"
  by (simp add: generation_job_mvp_def caught_mvp_def Let_def job_inv_written split: option.split)

lemma cache_inv_upd: "cache_inv c \<Longrightarrow> job_inv j \<Longrightarrow> cache_inv (c(k \<mapsto> j))"
  by (simp add: cache_inv_def)

lemma cache_inv_del: "cache_inv c \<Longrightarrow> cache_inv (delete_property k c)"
  by (simp add: cache_inv_def delete_property_def)

lemma cache_inv_start: "cache_inv c \<Longrightarrow> cache_inv (after (post_start_generation fid c))"
  by (simp add: post_start_generation_def admit_def Let_def cache_inv_upd job_inv_written)

lemma cache_inv_start_mvp: "cache_inv c \<Longrightarrow> cache_inv (after (post_start_generation_mvp fid c))"
  by (simp add: post_start_generation_mvp_def admit_def cache_inv_upd job_inv_written
      split: js_value.split)

lemma cache_inv_status: "cache_inv c \<Longrightarrow> cache_inv (after (get_status fid c))"
  by (simp add: get_status_def)

lemma cache_inv_mint:
  "cache_inv (MINT_CACHE s) \<Longrightarrow> cache_inv (MINT_CACHE (after (post_mint_nft fid r ch s)))"
  by (auto simp add: post_mint_nft_def getSDK_def Let_def cache_inv_del
      split: js_value.split attempt.split)

lemma cache_inv_mint_mvp: "cache_inv c \<Longrightarrow> cache_inv (after (post_mint_nft_mvp fid r rb c))"
  by (auto simp add: post_mint_nft_mvp_def Let_def cache_inv_del split: js_value.split attempt.split)

lemma cache_inv_example: "cache_inv [''42'' \<mapsto> processing_job]"
  by (simp add: cache_inv_def job_inv_written)

subsection \<open>Admission of start requests\<close>

text \<open>
  C1, as the code has it. In \<^verbatim>\<open>src/index.js\<close> a start request for a non-empty key
  whose entry is Processing answers \<^verbatim>\<open>{ status: "processing" }\<close>, leaves the cache
  as it is and starts no generation job. In the MVP only a Ready entry
  short-circuits: the same request stores \<^verbatim>\<open>{ status: "processing" }\<close> again, answers
  that generation has started and runs a generation job for the key. In both
  servers a start request either starts nothing or is admitted, and an admitted
  request starts exactly one generation job, for its own key.
\<close>

theorem start_while_processing:
  "(k \<noteq> [] \<and> c k = Some j \<and> status j = Processing \<longrightarrow>
      post_start_generation (Some k) c = Outcome (Response 200 [''status'' \<mapsto> S ''processing'']) c []
      \<and> post_start_generation_mvp (Some k) c =
          Outcome (Response 200 [''status'' \<mapsto> S ''processing'', ''message'' \<mapsto> S ''Generation started.''])
                  (c(k \<mapsto> processing_job)) [BackgroundJob k])
   \<and> (effects (post_start_generation fid c) = []
        \<or> (\<exists>k'. fid = Some k' \<and> post_start_generation fid c = admit k' c))
   \<and> (effects (post_start_generation_mvp fid c) = []
        \<or> (\<exists>k'. fid = Some k' \<and> post_start_generation_mvp fid c = admit k' c))
   \<and> effects (admit k c) = [BackgroundJob k]"
proof -
  have dedupe: "post_start_generation (Some k) c
                  = Outcome (Response 200 [''status'' \<mapsto> S ''processing'']) c []"
    if "k \<noteq> []" "c k = Some j" "status j = Processing"
    using that by (simp add: post_start_generation_def lookup_entry)
  have restart: "post_start_generation_mvp (Some k) c =
          Outcome (Response 200 [''status'' \<mapsto> S ''processing'', ''message'' \<mapsto> S ''Generation started.''])
                  (c(k \<mapsto> processing_job)) [BackgroundJob k]"
    if "k \<noteq> []" "c k = Some j" "status j = Processing"
    using that by (simp add: post_start_generation_mvp_def admit_def lookup_entry)
  have once: "effects (post_start_generation fid c) = []
        \<or> (\<exists>k'. fid = Some k' \<and> post_start_generation fid c = admit k' c)"
    by (cases fid) (auto simp add: post_start_generation_def Let_def)
  have once_mvp: "effects (post_start_generation_mvp fid c) = []
        \<or> (\<exists>k'. fid = Some k' \<and> post_start_generation_mvp fid c = admit k' c)"
    by (cases fid) (auto simp add: post_start_generation_mvp_def split: js_value.split)
  show ?thesis
    using dedupe restart once once_mvp by (simp add: admit_def)
qed

text \<open>The scenario's key with a Processing entry, in both servers.\<close>

theorem start_while_processing_witness:
  "[''42'' \<mapsto> processing_job] ''42'' = Some processing_job
   \<and> status processing_job = Processing
   \<and> post_start_generation (Some ''42'') [''42'' \<mapsto> processing_job]
       = Outcome (Response 200 [''status'' \<mapsto> S ''processing'']) [''42'' \<mapsto> processing_job] []
   \<and> post_start_generation_mvp (Some ''42'') [''42'' \<mapsto> processing_job]
       = Outcome (Response 200 [''status'' \<mapsto> S ''processing'', ''message'' \<mapsto> S ''Generation started.''])
                 ([''42'' \<mapsto> processing_job](''42'' \<mapsto> processing_job)) [BackgroundJob ''42'']"
proof -
  have h: "''42'' \<noteq> [] \<and> [''42'' \<mapsto> processing_job] ''42'' = Some processing_job
           \<and> status processing_job = Processing"
    by (simp add: processing_job_def)
  show ?thesis
    using h start_while_processing [of "''42''" "[''42'' \<mapsto> processing_job]" processing_job]
    by blast
qed

text \<open>
  C1 as stated fails in the MVP: with a Processing entry under \<^verbatim>\<open>42\<close>, a start
  request for \<^verbatim>\<open>42\<close> starts a generation job.
\<close>

theorem start_while_processing_mvp_restarts:
  "[''42'' \<mapsto> processing_job] ''42'' = Some processing_job
   \<and> status processing_job = Processing
   \<and> effects (post_start_generation_mvp (Some ''42'') [''42'' \<mapsto> processing_job])
       = [BackgroundJob ''42'']"
  by (simp add: post_start_generation_mvp_def admit_def processing_job_def lookup_def)

text \<open>
  C2, as the code has it. A start request for a non-empty key whose entry is Ready
  starts no generation job and leaves the cache as it is. The MVP answers the
  status \<^verbatim>\<open>ready\<close> with the entry's \<^verbatim>\<open>ipfsUri\<close> and \<^verbatim>\<open>metadataUri\<close>;
  \<^verbatim>\<open>src/index.js\<close> answers the status alone.
\<close>

theorem start_when_ready:
  "k \<noteq> [] \<Longrightarrow> c k = Some j \<Longrightarrow> status j = Ready \<Longrightarrow>
     post_start_generation (Some k) c = Outcome (Response 200 [''status'' \<mapsto> S ''ready'']) c []
     \<and> post_start_generation_mvp (Some k) c =
         Outcome (Response 200
                   ([''status'' \<mapsto> S ''ready'']
                      (''ipfsUri'' := map_option S (ipfsUri j),
                       ''metadataUri'' := map_option S (metadataUri j)))) c []"
  by (simp add: post_start_generation_def post_start_generation_mvp_def lookup_entry)

theorem start_when_ready_witness:
  "[''42'' \<mapsto> ready_42] ''42'' = Some ready_42
   \<and> status ready_42 = Ready
   \<and> post_start_generation (Some ''42'') [''42'' \<mapsto> ready_42]
       = Outcome (Response 200 [''status'' \<mapsto> S ''ready'']) [''42'' \<mapsto> ready_42] []
   \<and> post_start_generation_mvp (Some ''42'') [''42'' \<mapsto> ready_42]
       = Outcome (Response 200 [''status'' \<mapsto> S ''ready'', ''ipfsUri'' \<mapsto> S ''ipfs://Qa'',
                                ''metadataUri'' \<mapsto> S ''ipfs://Qb''])
                 [''42'' \<mapsto> ready_42] []"
proof -
  have h1: "''42'' \<noteq> []" by simp
  have h2: "[''42'' \<mapsto> ready_42] ''42'' = Some ready_42" by simp
  have h3: "status ready_42 = Ready" by (simp add: ready_42_def ready_job_def)
  have uris: "ipfsUri ready_42 = Some ''ipfs://Qa''" "metadataUri ready_42 = Some ''ipfs://Qb''"
    by (simp_all add: ready_42_def ready_job_def)
  show ?thesis
    using h2 h3 start_when_ready [of "''42''" "[''42'' \<mapsto> ready_42]" ready_42, OF h1 h2 h3]
    by (simp add: uris)
qed

text \<open>
  C2 as stated fails in \<^verbatim>\<open>src/index.js\<close>: the answer for the Ready entry of the
  scenario has no \<^verbatim>\<open>ipfsUri\<close> and no \<^verbatim>\<open>metadataUri\<close>.
\<close>

theorem start_when_ready_status_only:
  "[''42'' \<mapsto> ready_42] ''42'' = Some ready_42
   \<and> status ready_42 = Ready
   \<and> ipfsUri ready_42 = Some ''ipfs://Qa''
   \<and> metadataUri ready_42 = Some ''ipfs://Qb''
   \<and> reply (post_start_generation (Some ''42'') [''42'' \<mapsto> ready_42])
       = Response 200 [''status'' \<mapsto> S ''ready'']
   \<and> body (reply (post_start_generation (Some ''42'') [''42'' \<mapsto> ready_42])) ''ipfsUri'' = None
   \<and> body (reply (post_start_generation (Some ''42'') [''42'' \<mapsto> ready_42])) ''metadataUri'' = None"
  by (simp add: post_start_generation_def ready_42_def ready_job_def lookup_def)

subsection \<open>Minting\<close>

text \<open>
  C3. For a non-empty key whose entry is absent, Processing or Error and a
  non-empty recipient (the inputs the operation accepts; others are answered 400
  before the cache is read, see \<open>mint_invalid_input\<close>), a mint request is answered
  409 (NotReady) by both servers, calls nothing on the chain and leaves the
  server as it was. This holds for every such key, also one under which the
  cache object inherits something, since only an entry has the status ready.
\<close>

theorem mint_not_ready:
  assumes "k \<noteq> []" and "r \<noteq> []"
    and "MINT_CACHE s k = None
         \<or> (\<exists>j. MINT_CACHE s k = Some j \<and> (status j = Processing \<or> status j = Error))"
  shows "post_mint_nft (Some k) (Some r) ch s
           = Outcome (Response 409 [''error'' \<mapsto> S ''Not ready to mint.'']) s []
         \<and> post_mint_nft_mvp (Some k) (Some r) rb (MINT_CACHE s)
           = Outcome (Response 409 [''success'' \<mapsto> B False, ''error'' \<mapsto> S not_ready_mvp])
                     (MINT_CACHE s) []"
  using assms(3)
proof
  assume absent: "MINT_CACHE s k = None"
  have "\<forall>j. lookup (MINT_CACHE s) k \<noteq> Entry j"
    using absent by (simp add: lookup_no_entry)
  then show ?thesis
    using assms(1,2)
    by (cases "lookup (MINT_CACHE s) k") (auto simp add: post_mint_nft_def post_mint_nft_mvp_def)
next
  assume "\<exists>j. MINT_CACHE s k = Some j \<and> (status j = Processing \<or> status j = Error)"
  then obtain j where "MINT_CACHE s k = Some j" and "status j \<noteq> Ready"
    by auto
  then show ?thesis
    using assms(1,2) by (simp add: post_mint_nft_def post_mint_nft_mvp_def lookup_entry)
qed

text \<open>
  The scenario's key while its entry is Processing, and the name \<^verbatim>\<open>constructor\<close>
  without an entry, under which the cache object inherits a function.
\<close>

theorem mint_not_ready_witness:
  "MINT_CACHE (server_of [''42'' \<mapsto> processing_job]) ''42'' = Some processing_job
   \<and> status processing_job = Processing
   \<and> post_mint_nft (Some ''42'') (Some ''0xABC'') chain_42 (server_of [''42'' \<mapsto> processing_job])
       = Outcome (Response 409 [''error'' \<mapsto> S ''Not ready to mint.''])
                 (server_of [''42'' \<mapsto> processing_job]) []
   \<and> post_mint_nft_mvp (Some ''42'') (Some ''0xABC'') (Returned ''ab'')
         (MINT_CACHE (server_of [''42'' \<mapsto> processing_job]))
       = Outcome (Response 409 [''success'' \<mapsto> B False, ''error'' \<mapsto> S not_ready_mvp])
                 (MINT_CACHE (server_of [''42'' \<mapsto> processing_job])) []
   \<and> MINT_CACHE (server_of [''42'' \<mapsto> processing_job]) ''constructor'' = None
   \<and> post_mint_nft (Some ''constructor'') (Some ''0xABC'') chain_42
         (server_of [''42'' \<mapsto> processing_job])
       = Outcome (Response 409 [''error'' \<mapsto> S ''Not ready to mint.''])
                 (server_of [''42'' \<mapsto> processing_job]) []"
proof -
  let ?s = "server_of [''42'' \<mapsto> processing_job]"
  have k: "''42'' \<noteq> []" "''constructor'' \<noteq> []" and r: "''0xABC'' \<noteq> []"
    by simp_all
  have e1: "MINT_CACHE ?s ''42'' = Some processing_job"
    by (simp add: server_of_def)
  have e2: "status processing_job = Processing"
    by (simp add: processing_job_def)
  have e3: "MINT_CACHE ?s ''constructor'' = None"
    by (simp add: server_of_def)
  have h1: "MINT_CACHE ?s ''42'' = None
            \<or> (\<exists>j. MINT_CACHE ?s ''42'' = Some j \<and> (status j = Processing \<or> status j = Error))"
    using e1 e2 by simp
  have h2: "MINT_CACHE ?s ''constructor'' = None
            \<or> (\<exists>j. MINT_CACHE ?s ''constructor'' = Some j \<and> (status j = Processing \<or> status j = Error))"
    using e3 by simp
  show ?thesis
    using e1 e2 e3
      mint_not_ready [of "''42''" "''0xABC''" ?s chain_42 "Returned ''ab''", OF k(1) r h1]
      mint_not_ready [of "''constructor''" "''0xABC''" ?s chain_42 "Returned ''ab''", OF k(2) r h2]
    by simp
qed

text \<open>
  What the mint handlers do on success for a key under which the cache object
  inherits nothing (no member of \<^verbatim>\<open>Object.prototype\<close> has the name, and no entry
  was written under \<^verbatim>\<open>__proto__\<close>): the mint goes to the recipient with the entry's
  metadata URI, the answer is the transaction hash, and the entry is deleted, so
  that a status request for the key is answered 404 and a repeated mint request
  409.
\<close>

lemma mint_success_plain_key:
  assumes "k \<noteq> []" and "r \<noteq> []"
    and "MINT_CACHE s k = Some j" and "status j = Ready"
    and "sdkInstance s \<or> sdk_init ch"
    and "getContract ch = Returned ()" and "erc721_mint ch = Returned tx"
    and "Object_prototype k = Undefined" and "MINT_CACHE s ''__proto__'' = None"
  shows
    "reply (post_mint_nft (Some k) (Some r) ch s)
        = Response 200 [''success'' \<mapsto> B True, ''txHash'' \<mapsto> S tx]
     \<and> Erc721Mint r (''Box Character #'' @ k) (metadataUri j)
          \<in> set (effects (post_mint_nft (Some k) (Some r) ch s))
     \<and> MINT_CACHE (after (post_mint_nft (Some k) (Some r) ch s)) = (MINT_CACHE s)(k := None)
     \<and> reply (get_status (Some k) (MINT_CACHE (after (post_mint_nft (Some k) (Some r) ch s))))
        = Response 404 [''error'' \<mapsto> S ''No active job.'']
     \<and> post_mint_nft (Some k) (Some r) ch' (after (post_mint_nft (Some k) (Some r) ch s))
        = Outcome (Response 409 [''error'' \<mapsto> S ''Not ready to mint.''])
                  (after (post_mint_nft (Some k) (Some r) ch s)) []
     \<and> post_mint_nft_mvp (Some k) (Some r) (Returned hex) (MINT_CACHE s)
        = Outcome (Response 200 [''success'' \<mapsto> B True, ''txHash'' \<mapsto> S (''0x'' @ hex)])
                  ((MINT_CACHE s)(k := None)) []
     \<and> reply (get_status (Some k) ((MINT_CACHE s)(k := None)))
        = Response 404 [''error'' \<mapsto> S ''No active job.'']
     \<and> post_mint_nft_mvp (Some k) (Some r) rb ((MINT_CACHE s)(k := None))
        = Outcome (Response 409 [''success'' \<mapsto> B False, ''error'' \<mapsto> S not_ready_mvp])
                  ((MINT_CACHE s)(k := None)) []"
proof -
  let ?o = "post_mint_nft (Some k) (Some r) ch s"
  let ?c = "(MINT_CACHE s)(k := None)"
  have plain: "k \<noteq> ''__proto__''"
    using assms(8) by (auto simp add: Object_prototype_def)
  have unknown: "lookup ?c k = Undefined"
    using assms(8,9) plain by (simp add: lookup_plain)
  have run: "?o = Outcome (Response 200 [''success'' \<mapsto> B True, ''txHash'' \<mapsto> S tx])
                     (s\<lparr>MINT_CACHE := ?c, sdkInstance := True\<rparr>)
                     ((if sdkInstance s then [] else [SdkInit])
                       @ [GetContract, Erc721Mint r (''Box Character #'' @ k) (metadataUri j)])"
    using assms(1-7) plain
    by (simp add: post_mint_nft_def getSDK_available lookup_entry delete_property_def)
  have again: "post_mint_nft (Some k) (Some r) ch' (after ?o)
                 = Outcome (Response 409 [''error'' \<mapsto> S ''Not ready to mint.'']) (after ?o) []"
  proof -
    have "lookup (MINT_CACHE (after ?o)) k = Undefined"
      by (simp add: run unknown)
    then show ?thesis
      using assms(1,2) by (simp add: post_mint_nft_def)
  qed
  have run_mvp: "post_mint_nft_mvp (Some k) (Some r) (Returned hex) (MINT_CACHE s)
                   = Outcome (Response 200 [''success'' \<mapsto> B True, ''txHash'' \<mapsto> S (''0x'' @ hex)]) ?c []"
    using assms(1-4) plain by (simp add: post_mint_nft_mvp_def lookup_entry delete_property_def)
  have again_mvp: "post_mint_nft_mvp (Some k) (Some r) rb ?c
                 = Outcome (Response 409 [''success'' \<mapsto> B False, ''error'' \<mapsto> S not_ready_mvp]) ?c []"
    using assms(1,2) by (simp add: post_mint_nft_mvp_def unknown)
  have status: "reply (get_status (Some k) ?c) = Response 404 [''error'' \<mapsto> S ''No active job.'']"
    using assms(1) by (simp add: get_status_def unknown)
  show ?thesis
    using again run_mvp again_mvp status by (simp add: run)
qed

text \<open>
  C4 fails in the MVP for a key under which the cache object inherits something.
  Under \<^verbatim>\<open>__proto__\<close> the generation job's write sets the prototype, which
  \<^verbatim>\<open>delete MINT_CACHE[fid]\<close> does not remove: after a successful mint the cache is
  unchanged, a status request is still answered with the Ready entry and the
  same mint request succeeds again. Under \<^verbatim>\<open>constructor\<close> the entry is deleted, but
  a status request then reads the inherited function and is answered 200 with no
  body, not 404.
\<close>

theorem mint_inherited_key_survives:
  "generation_done_mvp ''__proto__'' world_42
       (after (post_start_generation_mvp (Some ''__proto__'') Map.empty))
     = [''__proto__'' \<mapsto> ready_42]
   \<and> post_mint_nft_mvp (Some ''__proto__'') (Some ''0xABC'') (Returned ''ab'') [''__proto__'' \<mapsto> ready_42]
     = Outcome (Response 200 [''success'' \<mapsto> B True, ''txHash'' \<mapsto> S ''0xab''])
               [''__proto__'' \<mapsto> ready_42] []
   \<and> reply (get_status (Some ''__proto__'') [''__proto__'' \<mapsto> ready_42])
     = Response 200 [''status'' \<mapsto> S ''ready'', ''ipfsUri'' \<mapsto> S ''ipfs://Qa'',
                     ''metadataUri'' \<mapsto> S ''ipfs://Qb'']
   \<and> generation_done_mvp ''constructor'' world_42
       (after (post_start_generation_mvp (Some ''constructor'') Map.empty))
     = [''constructor'' \<mapsto> ready_42]
   \<and> post_mint_nft_mvp (Some ''constructor'') (Some ''0xABC'') (Returned ''ab'')
       [''constructor'' \<mapsto> ready_42]
     = Outcome (Response 200 [''success'' \<mapsto> B True, ''txHash'' \<mapsto> S ''0xab'']) Map.empty []
   \<and> reply (get_status (Some ''constructor'') Map.empty) = Bare 200 None"
proof -
  have job: "snd (generation_job_mvp (Some k) world_42) = ready_42" for k
    by (simp add: generation_job_mvp_def generateBoxCharacter_mvp_def uploadImageToIpfs_def
        uploadMetadataToIpfs_def world_42_def ready_42_def Let_def)
  have done_proto: "generation_done_mvp ''__proto__'' world_42
       (after (post_start_generation_mvp (Some ''__proto__'') Map.empty))
     = [''__proto__'' \<mapsto> ready_42]"
    by (simp add: generation_done_mvp_def job post_start_generation_mvp_def admit_def lookup_def
        Object_prototype_def)
  have done_ctor: "generation_done_mvp ''constructor'' world_42
       (after (post_start_generation_mvp (Some ''constructor'') Map.empty))
     = [''constructor'' \<mapsto> ready_42]"
    by (simp add: generation_done_mvp_def job post_start_generation_mvp_def admit_def lookup_def
        Object_prototype_def)
  have ready: "status ready_42 = Ready"
    by (simp add: ready_42_def ready_job_def)
  have mint_proto: "post_mint_nft_mvp (Some ''__proto__'') (Some ''0xABC'') (Returned ''ab'')
       [''__proto__'' \<mapsto> ready_42]
     = Outcome (Response 200 [''success'' \<mapsto> B True, ''txHash'' \<mapsto> S ''0xab''])
               [''__proto__'' \<mapsto> ready_42] []"
    by (simp add: post_mint_nft_mvp_def lookup_write ready delete_property_def)
  have status_proto: "reply (get_status (Some ''__proto__'') [''__proto__'' \<mapsto> ready_42])
     = Response 200 [''status'' \<mapsto> S ''ready'', ''ipfsUri'' \<mapsto> S ''ipfs://Qa'',
                     ''metadataUri'' \<mapsto> S ''ipfs://Qb'']"
    by (simp add: get_status_def lookup_write job_json_def ready_42_def ready_job_def)
  have mint_ctor: "post_mint_nft_mvp (Some ''constructor'') (Some ''0xABC'') (Returned ''ab'')
       [''constructor'' \<mapsto> ready_42]
     = Outcome (Response 200 [''success'' \<mapsto> B True, ''txHash'' \<mapsto> S ''0xab'']) Map.empty []"
    by (simp add: post_mint_nft_mvp_def lookup_write ready delete_property_def)
  have status_ctor: "reply (get_status (Some ''constructor'') Map.empty) = Bare 200 None"
    by (simp add: get_status_def lookup_def Object_prototype_def)
  show ?thesis
    using done_proto mint_proto status_proto done_ctor mint_ctor status_ctor by simp
qed

text \<open>
  Hence the same mint request succeeds a second time under \<^verbatim>\<open>__proto__\<close>, and the
  status request after the first is answered 200.
\<close>

theorem mint_inherited_key_survives_witness:
  "reply (post_mint_nft_mvp (Some ''__proto__'') (Some ''0xABC'') (Returned ''ab'')
            (after (post_mint_nft_mvp (Some ''__proto__'') (Some ''0xABC'') (Returned ''ab'')
                      [''__proto__'' \<mapsto> ready_42])))
     = Response 200 [''success'' \<mapsto> B True, ''txHash'' \<mapsto> S ''0xab'']
   \<and> code (reply (get_status (Some ''__proto__'')
            (after (post_mint_nft_mvp (Some ''__proto__'') (Some ''0xABC'') (Returned ''ab'')
                      [''__proto__'' \<mapsto> ready_42])))) = 200"
  using mint_inherited_key_survives by simp

text \<open>
  C5. In \<^verbatim>\<open>src/index.js\<close>, when \<^verbatim>\<open>getContract\<close> or \<^verbatim>\<open>erc721.mint\<close> throws during a
  mint request for a Ready entry, the answer is 500 \<^verbatim>\<open>Mint failed.\<close> with the
  error's message as \<^verbatim>\<open>details\<close>, and the cache is unchanged, so the entry is still
  Ready with its URIs; the same request, once the chain answers, then succeeds.
\<close>

theorem mint_failure_keeps_entry:
  assumes "k \<noteq> []" and "r \<noteq> []"
    and "MINT_CACHE s k = Some j" and "status j = Ready"
    and "sdkInstance s \<or> sdk_init ch"
    and "getContract ch = Threw n m \<or> (getContract ch = Returned () \<and> erc721_mint ch = Threw n m)"
  shows
    "reply (post_mint_nft (Some k) (Some r) ch s)
        = Response 500 [''error'' \<mapsto> S ''Mint failed.'', ''details'' \<mapsto> S m]
     \<and> MINT_CACHE (after (post_mint_nft (Some k) (Some r) ch s)) = MINT_CACHE s
     \<and> (getContract ch' = Returned () \<and> erc721_mint ch' = Returned tx \<longrightarrow>
          reply (post_mint_nft (Some k) (Some r) ch' (after (post_mint_nft (Some k) (Some r) ch s)))
            = Response 200 [''success'' \<mapsto> B True, ''txHash'' \<mapsto> S tx])"
proof -
  let ?o = "post_mint_nft (Some k) (Some r) ch s"
  have run: "reply ?o = Response 500 [''error'' \<mapsto> S ''Mint failed.'', ''details'' \<mapsto> S m]
             \<and> after ?o = s\<lparr>sdkInstance := True\<rparr>"
    using assms by (auto simp add: post_mint_nft_def getSDK_available lookup_entry)
  have retry: "reply (post_mint_nft (Some k) (Some r) ch' (s\<lparr>sdkInstance := True\<rparr>))
                 = Response 200 [''success'' \<mapsto> B True, ''txHash'' \<mapsto> S tx]"
    if "getContract ch' = Returned ()" and "erc721_mint ch' = Returned tx"
    using assms(1-4) that by (simp add: post_mint_nft_def getSDK_def lookup_entry)
  show ?thesis
    using run retry by simp
qed

text \<open>The scenario with a mint that throws \<^verbatim>\<open>nonce too low\<close>, then the retry.\<close>

theorem mint_failure_keeps_entry_witness:
  "MINT_CACHE (server_of [''42'' \<mapsto> ready_42]) ''42'' = Some ready_42
   \<and> status ready_42 = Ready
   \<and> erc721_mint (chain_42\<lparr>erc721_mint := Threw ''Error'' ''nonce too low''\<rparr>)
       = Threw ''Error'' ''nonce too low''
   \<and> reply (post_mint_nft (Some ''42'') (Some ''0xABC'')
              (chain_42\<lparr>erc721_mint := Threw ''Error'' ''nonce too low''\<rparr>)
              (server_of [''42'' \<mapsto> ready_42]))
       = Response 500 [''error'' \<mapsto> S ''Mint failed.'', ''details'' \<mapsto> S ''nonce too low'']
   \<and> MINT_CACHE (after (post_mint_nft (Some ''42'') (Some ''0xABC'')
              (chain_42\<lparr>erc721_mint := Threw ''Error'' ''nonce too low''\<rparr>)
              (server_of [''42'' \<mapsto> ready_42])))
       = MINT_CACHE (server_of [''42'' \<mapsto> ready_42])
   \<and> reply (post_mint_nft (Some ''42'') (Some ''0xABC'') chain_42
              (after (post_mint_nft (Some ''42'') (Some ''0xABC'')
                        (chain_42\<lparr>erc721_mint := Threw ''Error'' ''nonce too low''\<rparr>)
                        (server_of [''42'' \<mapsto> ready_42]))))
       = Response 200 [''success'' \<mapsto> B True, ''txHash'' \<mapsto> S ''0xDEAD'']"
proof -
  let ?ch = "chain_42\<lparr>erc721_mint := Threw ''Error'' ''nonce too low''\<rparr>"
  have h1: "''42'' \<noteq> []" and h2: "''0xABC'' \<noteq> []"
    by simp_all
  have h3: "MINT_CACHE (server_of [''42'' \<mapsto> ready_42]) ''42'' = Some ready_42"
    by (simp add: server_of_def)
  have h4: "status ready_42 = Ready"
    by (simp add: ready_42_def ready_job_def)
  have h5: "sdkInstance (server_of [''42'' \<mapsto> ready_42]) \<or> sdk_init ?ch"
    by (simp add: chain_42_def)
  have h6: "getContract ?ch = Threw ''Error'' ''nonce too low''
            \<or> (getContract ?ch = Returned () \<and> erc721_mint ?ch = Threw ''Error'' ''nonce too low'')"
    by (simp add: chain_42_def)
  have h7: "getContract chain_42 = Returned () \<and> erc721_mint chain_42 = Returned ''0xDEAD''"
    by (simp add: chain_42_def)
  show ?thesis
    using h3 h4 h7
      mint_failure_keeps_entry [of "''42''" "''0xABC''" "server_of [''42'' \<mapsto> ready_42]" ready_42
                                   ?ch "''Error''" "''nonce too low''" chain_42 "''0xDEAD''",
                                OF h1 h2 h3 h4 h5 h6]
    by simp
qed

subsection \<open>The generation job\<close>

text \<open>
  C6. When a stage of the generation job fails, the stages after it are not
  called and the job stores, under its key, an entry with status Error, the
  failing stage's message and no URI. In \<^verbatim>\<open>src/index.js\<close> the stages are the
  profile image (\<^verbatim>\<open>No PFP found.\<close>), the generated image (\<^verbatim>\<open>AI generation failed.\<close>),
  the image pin (\<^verbatim>\<open>IPFS failed.\<close>) and the metadata pin (\<^verbatim>\<open>Metadata failed.\<close>); in the
  MVP, whose placeholder image is computed from the key and asks no service, the
  image pin (\<^verbatim>\<open>IPFS image upload failed.\<close>) and the metadata pin
  (\<^verbatim>\<open>IPFS metadata upload failed.\<close>).
\<close>

theorem failed_stage_recorded:
  "(getPfpUrl w = None \<longrightarrow>
      fst (generation_job (Some k) w) = [ResolvePfp]
      \<and> generation_done k w c =
          c(k \<mapsto> \<lparr>status = Error, ipfsUri = None, metadataUri = None, message = Some ''No PFP found.''\<rparr>))
   \<and> (getPfpUrl w = Some p \<and> (generateBoxCharacter w = None \<or> generateBoxCharacter w = Some []) \<longrightarrow>
      fst (generation_job (Some k) w) = [ResolvePfp, Generate]
      \<and> generation_done k w c =
          c(k \<mapsto> \<lparr>status = Error, ipfsUri = None, metadataUri = None,
                   message = Some ''AI generation failed.''\<rparr>))
   \<and> (getPfpUrl w = Some p \<and> generateBoxCharacter w = Some a \<and> a \<noteq> []
        \<and> uploadImageToIpfs a (Some k) w = None \<longrightarrow>
      fst (generation_job (Some k) w) = [ResolvePfp, Generate, PinImage]
      \<and> generation_done k w c =
          c(k \<mapsto> \<lparr>status = Error, ipfsUri = None, metadataUri = None, message = Some ''IPFS failed.''\<rparr>))
   \<and> (getPfpUrl w = Some p \<and> generateBoxCharacter w = Some a \<and> a \<noteq> []
        \<and> uploadImageToIpfs a (Some k) w = Some u \<and> uploadMetadataToIpfs (Some k) u w = None \<longrightarrow>
      fst (generation_job (Some k) w) = [ResolvePfp, Generate, PinImage, PinMetadata]
      \<and> generation_done k w c =
          c(k \<mapsto> \<lparr>status = Error, ipfsUri = None, metadataUri = None, message = Some ''Metadata failed.''\<rparr>))
   \<and> (uploadImageToIpfs (generateBoxCharacter_mvp (Some k)) (Some k) w = None \<longrightarrow>
      fst (generation_job_mvp (Some k) w) = [Generate, PinImage]
      \<and> generation_done_mvp k w c =
          c(k \<mapsto> \<lparr>status = Error, ipfsUri = None, metadataUri = None,
                   message = Some ''IPFS image upload failed.''\<rparr>))
   \<and> (uploadImageToIpfs (generateBoxCharacter_mvp (Some k)) (Some k) w = Some u'
        \<and> uploadMetadataToIpfs (Some k) u' w = None \<longrightarrow>
      fst (generation_job_mvp (Some k) w) = [Generate, PinImage, PinMetadata]
      \<and> generation_done_mvp k w c =
          c(k \<mapsto> \<lparr>status = Error, ipfsUri = None, metadataUri = None,
                   message = Some ''IPFS metadata upload failed.''\<rparr>))"
proof -
  have pfp: "getPfpUrl w = Some x \<Longrightarrow> x \<noteq> []" for x
    by (rule getPfpUrl_nonempty)
  have img: "uploadImageToIpfs x f w = Some y \<Longrightarrow> y \<noteq> []" for x f y
    by (rule uploadImageToIpfs_nonempty)
  show ?thesis
    by (auto simp add: generation_job_def generation_job_mvp_def generation_done_def
        generation_done_mvp_def error_job_def caught_mvp_def Let_def dest: pfp img)
qed

text \<open>
  The scenario with each stage failing in turn: Neynar throws, Replicate answers
  an empty array, the download of the image fails, Pinata refuses the metadata;
  and in the MVP, Pinata refuses the image or the metadata.
\<close>

theorem failed_stage_recorded_witness:
  "getPfpUrl (world_42\<lparr>fetchBulkUsers := None\<rparr>) = None
   \<and> fst (generation_job (Some ''42'') (world_42\<lparr>fetchBulkUsers := None\<rparr>)) = [ResolvePfp]
   \<and> generation_done ''42'' (world_42\<lparr>fetchBulkUsers := None\<rparr>) [''42'' \<mapsto> processing_job]
       = [''42'' \<mapsto> processing_job]
           (''42'' \<mapsto> \<lparr>status = Error, ipfsUri = None, metadataUri = None,
                        message = Some ''No PFP found.''\<rparr>)
   \<and> generateBoxCharacter (world_42\<lparr>replicate_run := Some []\<rparr>) = None
   \<and> fst (generation_job (Some ''42'') (world_42\<lparr>replicate_run := Some []\<rparr>)) = [ResolvePfp, Generate]
   \<and> generation_done ''42'' (world_42\<lparr>replicate_run := Some []\<rparr>) [''42'' \<mapsto> processing_job]
       = [''42'' \<mapsto> processing_job]
           (''42'' \<mapsto> \<lparr>status = Error, ipfsUri = None, metadataUri = None,
                        message = Some ''AI generation failed.''\<rparr>)
   \<and> uploadImageToIpfs ''img://gen42'' (Some ''42'') (world_42\<lparr>axios_get := False\<rparr>) = None
   \<and> fst (generation_job (Some ''42'') (world_42\<lparr>axios_get := False\<rparr>))
       = [ResolvePfp, Generate, PinImage]
   \<and> generation_done ''42'' (world_42\<lparr>axios_get := False\<rparr>) [''42'' \<mapsto> processing_job]
       = [''42'' \<mapsto> processing_job]
           (''42'' \<mapsto> \<lparr>status = Error, ipfsUri = None, metadataUri = None,
                        message = Some ''IPFS failed.''\<rparr>)
   \<and> uploadMetadataToIpfs (Some ''42'') ''ipfs://Qa'' (world_42\<lparr>pinJSONToIPFS := None\<rparr>) = None
   \<and> fst (generation_job (Some ''42'') (world_42\<lparr>pinJSONToIPFS := None\<rparr>))
       = [ResolvePfp, Generate, PinImage, PinMetadata]
   \<and> generation_done ''42'' (world_42\<lparr>pinJSONToIPFS := None\<rparr>) [''42'' \<mapsto> processing_job]
       = [''42'' \<mapsto> processing_job]
           (''42'' \<mapsto> \<lparr>status = Error, ipfsUri = None, metadataUri = None,
                        message = Some ''Metadata failed.''\<rparr>)
   \<and> fst (generation_job_mvp (Some ''42'') (world_42\<lparr>pinFileToIPFS := None\<rparr>)) = [Generate, PinImage]
   \<and> generation_done_mvp ''42'' (world_42\<lparr>pinFileToIPFS := None\<rparr>) [''42'' \<mapsto> processing_job]
       = [''42'' \<mapsto> processing_job]
           (''42'' \<mapsto> \<lparr>status = Error, ipfsUri = None, metadataUri = None,
                        message = Some ''IPFS image upload failed.''\<rparr>)
   \<and> fst (generation_job_mvp (Some ''42'') (world_42\<lparr>pinJSONToIPFS := None\<rparr>))
       = [Generate, PinImage, PinMetadata]
   \<and> generation_done_mvp ''42'' (world_42\<lparr>pinJSONToIPFS := None\<rparr>) [''42'' \<mapsto> processing_job]
       = [''42'' \<mapsto> processing_job]
           (''42'' \<mapsto> \<lparr>status = Error, ipfsUri = None, metadataUri = None,
                        message = Some ''IPFS metadata upload failed.''\<rparr>)"
proof -
  let ?c = "[''42'' \<mapsto> processing_job]"
  let ?w1 = "world_42\<lparr>fetchBulkUsers := None\<rparr>"
  let ?w2 = "world_42\<lparr>replicate_run := Some []\<rparr>"
  let ?w3 = "world_42\<lparr>axios_get := False\<rparr>"
  let ?w4 = "world_42\<lparr>pinJSONToIPFS := None\<rparr>"
  let ?w5 = "world_42\<lparr>pinFileToIPFS := None\<rparr>"
  have pfp: "getPfpUrl ?w1 = None" "getPfpUrl ?w2 = Some ''img://p42''"
    "getPfpUrl ?w3 = Some ''img://p42''" "getPfpUrl ?w4 = Some ''img://p42''"
    by (simp_all add: getPfpUrl_def world_42_def)
  have gen: "generateBoxCharacter ?w2 = None" "generateBoxCharacter ?w3 = Some ''img://gen42''"
    "generateBoxCharacter ?w4 = Some ''img://gen42''"
    by (simp_all add: generateBoxCharacter_def world_42_def)
  have img: "uploadImageToIpfs ''img://gen42'' (Some ''42'') ?w3 = None"
    "uploadImageToIpfs ''img://gen42'' (Some ''42'') ?w4 = Some ''ipfs://Qa''"
    "uploadImageToIpfs (generateBoxCharacter_mvp (Some ''42'')) (Some ''42'') ?w5 = None"
    "uploadImageToIpfs (generateBoxCharacter_mvp (Some ''42'')) (Some ''42'') ?w4 = Some ''ipfs://Qa''"
    by (simp_all add: uploadImageToIpfs_def generateBoxCharacter_mvp_def world_42_def)
  have meta: "uploadMetadataToIpfs (Some ''42'') ''ipfs://Qa'' ?w4 = None"
    by (simp add: uploadMetadataToIpfs_def world_42_def)
  have ne: "''img://gen42'' \<noteq> []"
    by simp
  have s1: "fst (generation_job (Some ''42'') ?w1) = [ResolvePfp]
      \<and> generation_done ''42'' ?w1 ?c =
          ?c(''42'' \<mapsto> \<lparr>status = Error, ipfsUri = None, metadataUri = None,
                         message = Some ''No PFP found.''\<rparr>)"
    using pfp(1) failed_stage_recorded [of ?w1 "''42''" ?c] by blast
  have s2: "fst (generation_job (Some ''42'') ?w2) = [ResolvePfp, Generate]
      \<and> generation_done ''42'' ?w2 ?c =
          ?c(''42'' \<mapsto> \<lparr>status = Error, ipfsUri = None, metadataUri = None,
                         message = Some ''AI generation failed.''\<rparr>)"
    using pfp(2) gen(1) failed_stage_recorded [of ?w2 "''42''" ?c "''img://p42''"] by blast
  have s3: "fst (generation_job (Some ''42'') ?w3) = [ResolvePfp, Generate, PinImage]
      \<and> generation_done ''42'' ?w3 ?c =
          ?c(''42'' \<mapsto> \<lparr>status = Error, ipfsUri = None, metadataUri = None,
                         message = Some ''IPFS failed.''\<rparr>)"
    using pfp(3) gen(2) img(1) ne
      failed_stage_recorded [of ?w3 "''42''" ?c "''img://p42''" "''img://gen42''"] by blast
  have s4: "fst (generation_job (Some ''42'') ?w4) = [ResolvePfp, Generate, PinImage, PinMetadata]
      \<and> generation_done ''42'' ?w4 ?c =
          ?c(''42'' \<mapsto> \<lparr>status = Error, ipfsUri = None, metadataUri = None,
                         message = Some ''Metadata failed.''\<rparr>)"
    using pfp(4) gen(3) img(2) meta ne
      failed_stage_recorded [of ?w4 "''42''" ?c "''img://p42''" "''img://gen42''" "''ipfs://Qa''"]
    by blast
  have s5: "fst (generation_job_mvp (Some ''42'') ?w5) = [Generate, PinImage]
      \<and> generation_done_mvp ''42'' ?w5 ?c =
          ?c(''42'' \<mapsto> \<lparr>status = Error, ipfsUri = None, metadataUri = None,
                         message = Some ''IPFS image upload failed.''\<rparr>)"
    using img(3) failed_stage_recorded [of ?w5 "''42''" ?c] by blast
  have s6: "fst (generation_job_mvp (Some ''42'') ?w4) = [Generate, PinImage, PinMetadata]
      \<and> generation_done_mvp ''42'' ?w4 ?c =
          ?c(''42'' \<mapsto> \<lparr>status = Error, ipfsUri = None, metadataUri = None,
                         message = Some ''IPFS metadata upload failed.''\<rparr>)"
    using img(4) meta failed_stage_recorded [of ?w4 "''42''" ?c _ _ _ "''ipfs://Qa''"] by blast
  show ?thesis
    using pfp(1) gen(1) img(1) meta s1 s2 s3 s4 s5 s6 by simp
qed

text \<open>
  C7. When every stage of the generation job succeeds, both URIs are non-empty,
  the job stores under its key an entry with status Ready and the two URIs, and a
  status request for the key is then answered with that entry.
\<close>

theorem all_stages_succeed_ready:
  "(getPfpUrl w = Some p \<and> generateBoxCharacter w = Some a \<and> a \<noteq> []
      \<and> uploadImageToIpfs a (Some k) w = Some u \<and> uploadMetadataToIpfs (Some k) u w = Some m \<longrightarrow>
      u \<noteq> [] \<and> m \<noteq> []
      \<and> fst (generation_job (Some k) w) = [ResolvePfp, Generate, PinImage, PinMetadata]
      \<and> generation_done k w c =
          c(k \<mapsto> \<lparr>status = Ready, ipfsUri = Some u, metadataUri = Some m, message = None\<rparr>)
      \<and> (k \<noteq> [] \<longrightarrow>
           reply (get_status (Some k) (generation_done k w c))
             = Response 200 [''status'' \<mapsto> S ''ready'', ''ipfsUri'' \<mapsto> S u, ''metadataUri'' \<mapsto> S m]))
   \<and> (uploadImageToIpfs (generateBoxCharacter_mvp (Some k)) (Some k) w = Some u'
      \<and> uploadMetadataToIpfs (Some k) u' w = Some m' \<longrightarrow>
      u' \<noteq> [] \<and> m' \<noteq> []
      \<and> fst (generation_job_mvp (Some k) w) = [Generate, PinImage, PinMetadata]
      \<and> generation_done_mvp k w c =
          c(k \<mapsto> \<lparr>status = Ready, ipfsUri = Some u', metadataUri = Some m', message = None\<rparr>)
      \<and> (k \<noteq> [] \<longrightarrow>
           reply (get_status (Some k) (generation_done_mvp k w c))
             = Response 200 [''status'' \<mapsto> S ''ready'', ''ipfsUri'' \<mapsto> S u', ''metadataUri'' \<mapsto> S m']))"
proof -
  have a_part: "u \<noteq> [] \<and> m \<noteq> []
      \<and> fst (generation_job (Some k) w) = [ResolvePfp, Generate, PinImage, PinMetadata]
      \<and> generation_done k w c =
          c(k \<mapsto> \<lparr>status = Ready, ipfsUri = Some u, metadataUri = Some m, message = None\<rparr>)"
    if "getPfpUrl w = Some p" "generateBoxCharacter w = Some a" "a \<noteq> []"
       "uploadImageToIpfs a (Some k) w = Some u" "uploadMetadataToIpfs (Some k) u w = Some m"
  proof -
    have "p \<noteq> []" "u \<noteq> []" "m \<noteq> []"
      using that getPfpUrl_nonempty uploadImageToIpfs_nonempty uploadMetadataToIpfs_nonempty
      by blast+
    then show ?thesis
      using that by (simp add: generation_job_def generation_done_def ready_job_def)
  qed
  have b_part: "u' \<noteq> [] \<and> m' \<noteq> []
      \<and> fst (generation_job_mvp (Some k) w) = [Generate, PinImage, PinMetadata]
      \<and> generation_done_mvp k w c =
          c(k \<mapsto> \<lparr>status = Ready, ipfsUri = Some u', metadataUri = Some m', message = None\<rparr>)"
    if "uploadImageToIpfs (generateBoxCharacter_mvp (Some k)) (Some k) w = Some u'"
       "uploadMetadataToIpfs (Some k) u' w = Some m'"
  proof -
    have "u' \<noteq> []" "m' \<noteq> []"
      using that uploadImageToIpfs_nonempty uploadMetadataToIpfs_nonempty by blast+
    then show ?thesis
      using that by (simp add: generation_job_mvp_def generation_done_mvp_def ready_job_def Let_def)
  qed
  have read: "k \<noteq> [] \<Longrightarrow>
      reply (get_status (Some k)
               (c(k \<mapsto> \<lparr>status = Ready, ipfsUri = Some x, metadataUri = Some y, message = None\<rparr>)))
        = Response 200 [''status'' \<mapsto> S ''ready'', ''ipfsUri'' \<mapsto> S x, ''metadataUri'' \<mapsto> S y]" for x y
    by (simp add: get_status_def job_json_def lookup_write)
  show ?thesis
    using a_part b_part read by simp
qed

text \<open>The scenario: key \<^verbatim>\<open>42\<close> becomes Ready with \<^verbatim>\<open>ipfs://Qa\<close> and \<^verbatim>\<open>ipfs://Qb\<close>.\<close>

theorem all_stages_succeed_ready_witness:
  "getPfpUrl world_42 = Some ''img://p42''
   \<and> generateBoxCharacter world_42 = Some ''img://gen42''
   \<and> uploadImageToIpfs ''img://gen42'' (Some ''42'') world_42 = Some ''ipfs://Qa''
   \<and> uploadMetadataToIpfs (Some ''42'') ''ipfs://Qa'' world_42 = Some ''ipfs://Qb''
   \<and> generation_done ''42'' world_42 [''42'' \<mapsto> processing_job]
       = [''42'' \<mapsto> processing_job]
           (''42'' \<mapsto> \<lparr>status = Ready, ipfsUri = Some ''ipfs://Qa'', metadataUri = Some ''ipfs://Qb'',
                        message = None\<rparr>)
   \<and> reply (get_status (Some ''42'') (generation_done ''42'' world_42 [''42'' \<mapsto> processing_job]))
       = Response 200 [''status'' \<mapsto> S ''ready'', ''ipfsUri'' \<mapsto> S ''ipfs://Qa'',
                       ''metadataUri'' \<mapsto> S ''ipfs://Qb'']
   \<and> reply (get_status (Some ''42'') (generation_done_mvp ''42'' world_42 [''42'' \<mapsto> processing_job]))
       = Response 200 [''status'' \<mapsto> S ''ready'', ''ipfsUri'' \<mapsto> S ''ipfs://Qa'',
                       ''metadataUri'' \<mapsto> S ''ipfs://Qb'']"
proof -
  have a1: "getPfpUrl world_42 = Some ''img://p42''"
    by (simp add: getPfpUrl_def world_42_def)
  have a2: "generateBoxCharacter world_42 = Some ''img://gen42''"
    by (simp add: generateBoxCharacter_def world_42_def)
  have a3: "uploadImageToIpfs ''img://gen42'' (Some ''42'') world_42 = Some ''ipfs://Qa''"
    by (simp add: uploadImageToIpfs_def world_42_def)
  have a4: "uploadMetadataToIpfs (Some ''42'') ''ipfs://Qa'' world_42 = Some ''ipfs://Qb''"
    by (simp add: uploadMetadataToIpfs_def world_42_def)
  have b1: "uploadImageToIpfs (generateBoxCharacter_mvp (Some ''42'')) (Some ''42'') world_42
              = Some ''ipfs://Qa''"
    by (simp add: uploadImageToIpfs_def generateBoxCharacter_mvp_def world_42_def)
  have ne: "''img://gen42'' \<noteq> []" "''42'' \<noteq> []"
    by simp_all
  show ?thesis
    using a1 a2 a3 a4 b1 ne
      all_stages_succeed_ready [of world_42 "''img://p42''" "''img://gen42''" "''42''" "''ipfs://Qa''"
                                   "''ipfs://Qb''" "[''42'' \<mapsto> processing_job]" "''ipfs://Qa''"
                                   "''ipfs://Qb''"]
    by blast
qed

subsection \<open>The invariant of the cache\<close>

text \<open>
  C8. In every entry of the cache, \<^verbatim>\<open>ipfsUri\<close> and \<^verbatim>\<open>metadataUri\<close> are set exactly
  when the status is Ready, and \<^verbatim>\<open>message\<close> exactly when the status is Error: this
  holds of the empty cache the servers start with, and every step of either
  server (start request, end of a generation job, status request, mint request,
  the delete of a mint) preserves it.
\<close>

theorem invariant_preserved:
  "cache_inv Map.empty
   \<and> (cache_inv (MINT_CACHE s) \<longrightarrow> cache_inv (MINT_CACHE (serve rq s)))
   \<and> (cache_inv c \<longrightarrow> cache_inv (serve_mvp rq' c))"
proof -
  have init: "cache_inv Map.empty"
    by (simp add: cache_inv_def)
  have a: "cache_inv (MINT_CACHE (serve rq s))" if "cache_inv (MINT_CACHE s)"
    using that
    by (cases rq)
       (simp_all add: cache_inv_start cache_inv_status cache_inv_mint cache_inv_del
          generation_done_def cache_inv_upd job_inv_generation_job)
  have b: "cache_inv (serve_mvp rq' c)" if "cache_inv c"
    using that
    by (cases rq')
       (simp_all add: cache_inv_start_mvp cache_inv_status cache_inv_mint_mvp
          generation_done_mvp_def cache_inv_upd job_inv_generation_job_mvp)
  show ?thesis
    using init a b by blast
qed

text \<open>
  The scenario: the generation job of key \<^verbatim>\<open>42\<close> ends in \<^verbatim>\<open>src/index.js\<close>, and a
  start request for key \<^verbatim>\<open>7\<close> arrives at the MVP.
\<close>

theorem invariant_preserved_witness:
  "cache_inv [''42'' \<mapsto> processing_job]
   \<and> cache_inv (MINT_CACHE (serve (GenerationDone ''42'' world_42) (server_of [''42'' \<mapsto> processing_job])))
   \<and> cache_inv (serve_mvp (StartGeneration_mvp (Some ''7'')) [''42'' \<mapsto> processing_job])"
proof -
  have h: "cache_inv (MINT_CACHE (server_of [''42'' \<mapsto> processing_job]))"
    by (simp add: server_of_def cache_inv_example)
  show ?thesis
    using h cache_inv_example
      invariant_preserved [of "server_of [''42'' \<mapsto> processing_job]" "GenerationDone ''42'' world_42"
                              "[''42'' \<mapsto> processing_job]" "StartGeneration_mvp (Some ''7'')"]
    by blast
qed

subsection \<open>Input validation\<close>

text \<open>
  C9. A start-generation request whose key is missing or empty is answered at once
  with 400 \<^verbatim>\<open>Missing FID\<close> (the spec's InvalidInput) by both servers; the cache is
  the same afterwards, for every key, and no generation job is started.
\<close>

theorem start_generation_rejects_missing_key:
  "post_start_generation None c = Outcome (Response 400 [''error'' \<mapsto> S ''Missing FID'']) c []
   \<and> post_start_generation (Some []) c = Outcome (Response 400 [''error'' \<mapsto> S ''Missing FID'']) c []
   \<and> post_start_generation_mvp None c = Outcome (Response 400 [''error'' \<mapsto> S ''Missing FID'']) c []
   \<and> post_start_generation_mvp (Some []) c = Outcome (Response 400 [''error'' \<mapsto> S ''Missing FID'']) c []"
  by (simp add: post_start_generation_def post_start_generation_mvp_def)

text \<open>
  C10. The status handler, the same in both servers, answers a request whose key
  is missing or empty with 404 \<^verbatim>\<open>No active job.\<close> (NotFound, not the 400 of
  InvalidInput), which is its answer for an unknown key, one under which
  \<^verbatim>\<open>MINT_CACHE[fid]\<close> reads \<^verbatim>\<open>undefined\<close>; and whatever the key, it returns the cache
  as it was and does nothing else.
\<close>

theorem status_missing_key_like_unknown:
  "get_status None c = Outcome (Response 404 [''error'' \<mapsto> S ''No active job.'']) c []
   \<and> get_status (Some []) c = Outcome (Response 404 [''error'' \<mapsto> S ''No active job.'']) c []
   \<and> (lookup c k = Undefined \<longrightarrow> get_status (Some k) c = get_status None c)
   \<and> after (get_status fid c) = c
   \<and> effects (get_status fid c) = []"
  by (simp add: get_status_def)

text \<open>A cache that knows key \<^verbatim>\<open>42\<close> and not key \<^verbatim>\<open>7\<close>.\<close>

theorem status_missing_key_like_unknown_witness:
  "lookup [''42'' \<mapsto> processing_job] ''7'' = Undefined
   \<and> get_status (Some ''7'') [''42'' \<mapsto> processing_job] = get_status None [''42'' \<mapsto> processing_job]
   \<and> get_status None [''42'' \<mapsto> processing_job]
       = Outcome (Response 404 [''error'' \<mapsto> S ''No active job.'']) [''42'' \<mapsto> processing_job] []
   \<and> after (get_status (Some ''42'') [''42'' \<mapsto> processing_job]) = [''42'' \<mapsto> processing_job]"
proof -
  have h: "lookup [''42'' \<mapsto> processing_job] ''7'' = Undefined"
    by (simp add: lookup_def Object_prototype_def)
  show ?thesis
    using h status_missing_key_like_unknown [of "[''42'' \<mapsto> processing_job]" "''7''" "Some ''42''"]
    by blast
qed

end
